theory Spec2Isabelle
  imports Complex_Main "HOL-Library.Sublist" "HOL-Library.AList" "HOL-Library.Monad_Syntax"
begin

text \<open>
  The persistence layer of the document store \<^verbatim>\<open>@seald-io/nedb\<close>: the crash-safe rewrite
  and the recovery check of \<^verbatim>\<open>lib/storage.js\<close>, and the constructor, the compaction and
  the replay of \<^verbatim>\<open>lib/persistence.js\<close>. Functions of Node and of other modules that the
  code calls (\<^verbatim>\<open>fs\<close>, \<^verbatim>\<open>path.dirname\<close>, \<^verbatim>\<open>model.serialize\<close>, \<^verbatim>\<open>model.deserialize\<close>,
  \<^verbatim>\<open>customUtils.uid\<close>) are parameters, or their outcomes are.
\<close>

section \<open>Storage layer: \<^verbatim>\<open>lib/storage.js\<close>\<close>

subsection \<open>Errors and completions\<close>

text \<open>
  A Node system error is observed by the code only through its \<^verbatim>\<open>code\<close> property,
  which may be missing. \<^verbatim>\<open>flushToStorage\<close> builds one error of its own,
  \<^verbatim>\<open>new Error('Failed to flush to storage')\<close>, that carries the fsync and the close error.
\<close>

datatype sys_error = SysError (code: "string option")

datatype js_error =
    Sys sys_error
  | FlushFailed (errorOnFsync: "sys_error option") (errorOnClose: "sys_error option")

text \<open>
  A continuation-passing function either calls its callback with a value, or an exception
  is thrown that nothing catches (from inside an I/O callback, or before any I/O is
  started) and the callback is never called.
\<close>

datatype js_exception = TypeError

datatype 'a completion = Callback 'a | Uncaught js_exception

subsection \<open>flushToStorage\<close>

text \<open>
  The argument is either a string (the file name) or an object with \<^verbatim>\<open>filename\<close> and an
  optional \<^verbatim>\<open>isDir\<close>. \<^verbatim>\<open>options.isDir\<close> of a string is \<^verbatim>\<open>undefined\<close>, which is falsy.
\<close>

datatype flush_options = PathOnly string | FlushOpts string bool

definition opt_filename :: "flush_options \<Rightarrow> string" where
  "opt_filename options = (case options of PathOnly s \<Rightarrow> s | FlushOpts f _ \<Rightarrow> f)"

definition opt_flags :: "flush_options \<Rightarrow> string" where
  "opt_flags options =
     (case options of PathOnly _ \<Rightarrow> ''r+'' | FlushOpts _ d \<Rightarrow> if d then ''r'' else ''r+'')"

definition opt_isDir :: "flush_options \<Rightarrow> bool" where
  "opt_isDir options = (case options of PathOnly _ \<Rightarrow> False | FlushOpts _ d \<Rightarrow> d)"

text \<open>
  The three calls of Node's \<^verbatim>\<open>fs\<close> that a flush makes, with the outcome each of them has:
  \<^verbatim>\<open>fs.open(filename, flags)\<close> gives an error or a descriptor, \<^verbatim>\<open>fs.fsync(fd)\<close> and
  \<^verbatim>\<open>fs.close(fd)\<close> give an error or \<^verbatim>\<open>null\<close> (here \<open>None\<close>).
\<close>

record fs_calls =
  fs_open :: "string \<Rightarrow> string \<Rightarrow> sys_error + nat"
  fs_fsync :: "nat \<Rightarrow> sys_error option"
  fs_close :: "nat \<Rightarrow> sys_error option"

text \<open>
  The condition of the source is
  \<^verbatim>\<open>(errFS || errC) && !((errFS.code === 'EPERM' || errFS.code === 'EISDIR') && options.isDir)\<close>.
  When its left conjunct is truthy the right one reads \<^verbatim>\<open>errFS.code\<close>; with \<^verbatim>\<open>errFS\<close> being
  \<^verbatim>\<open>null\<close> (fsync succeeded, close failed) that read throws a TypeError inside the callback
  of \<^verbatim>\<open>fs.close\<close>.
\<close>

text \<open>An error argument of a callback is an error object (truthy) or \<^verbatim>\<open>null\<close>.\<close>

definition is_error :: "'e option \<Rightarrow> bool" where
  "is_error e = (case e of None \<Rightarrow> False | Some _ \<Rightarrow> True)"

definition flushToStorage :: "fs_calls \<Rightarrow> flush_options \<Rightarrow> js_error option completion" where
  "flushToStorage io options =
     (case fs_open io (opt_filename options) (opt_flags options) of
        Inl err \<Rightarrow>
          Callback (if code err = Some ''EISDIR'' \<and> opt_isDir options then None else Some (Sys err))
      | Inr fd \<Rightarrow>
          (let errFS = fs_fsync io fd;
               errC = fs_close io fd
           in if is_error errFS \<or> is_error errC then
                (case errFS of
                   None \<Rightarrow> Uncaught TypeError
                 | Some e \<Rightarrow>
                     if \<not> ((code e = Some ''EPERM'' \<or> code e = Some ''EISDIR'') \<and> opt_isDir options)
                     then Callback (Some (FlushFailed errFS errC))
                     else Callback None)
              else Callback None))"

text \<open>Outcomes of the three calls that do not depend on their arguments.\<close>

definition fixed_calls ::
  "sys_error option \<Rightarrow> sys_error option \<Rightarrow> sys_error option \<Rightarrow> fs_calls" where
  "fixed_calls eo ef ec =
     \<lparr> fs_open = (\<lambda>_ _. case eo of None \<Rightarrow> Inr 3 | Some e \<Rightarrow> Inl e),
       fs_fsync = (\<lambda>_. ef),
       fs_close = (\<lambda>_. ec) \<rparr>"

definition all_ok :: fs_calls where
  "all_ok = fixed_calls None None None"

subsection \<open>Files, exists, rename, writeFile, writeFileLines\<close>

text \<open>
  The file system is a map from paths to contents. \<^verbatim>\<open>storage.exists\<close> is
  \<^verbatim>\<open>fs.access(path, F_OK)\<close> without an error. Whether \<^verbatim>\<open>fs.rename\<close> and a write succeed is
  decided by the medium and is an input of the model; a rename that fails leaves both files
  as they were, a rename of a missing file fails with ENOENT, and a write that fails leaves
  the written file in a state that is an input too (missing, or any content).
\<close>

type_synonym files = "string \<Rightarrow> string option"

definition storage_exists :: "files \<Rightarrow> string \<Rightarrow> bool" where
  "storage_exists fs path = (case fs path of None \<Rightarrow> False | Some _ \<Rightarrow> True)"

definition storage_rename ::
  "sys_error option \<Rightarrow> string \<Rightarrow> string \<Rightarrow> files \<Rightarrow> js_error option \<times> files" where
  "storage_rename outcome oldPath newPath fs =
     (case fs oldPath of
        None \<Rightarrow> (Some (Sys (SysError (Some ''ENOENT''))), fs)
      | Some content \<Rightarrow>
          (case outcome of
             Some e \<Rightarrow> (Some (Sys e), fs)
           | None \<Rightarrow> (None, (fs(oldPath := None))(newPath \<mapsto> content))))"

datatype write_outcome = Written | WriteFailed sys_error "string option"

definition storage_writeFile ::
  "write_outcome \<Rightarrow> string \<Rightarrow> string \<Rightarrow> files \<Rightarrow> js_error option \<times> files" where
  "storage_writeFile outcome filename content fs =
     (case outcome of
        Written \<Rightarrow> (None, fs(filename \<mapsto> content))
      | WriteFailed e left \<Rightarrow> (Some (Sys e), fs(filename := left)))"

text \<open>
  \<^verbatim>\<open>writeFileLines\<close> opens a write stream on the file (which truncates it) and writes every
  line followed by a newline. The stream events are abstracted to the outcome of the whole
  write, reported to the callback once.
\<close>

definition file_of_lines :: "string list \<Rightarrow> string" where
  "file_of_lines lines = concat (map (\<lambda>line. line @ [CHR 0x0A]) lines)"

definition writeFileLines ::
  "write_outcome \<Rightarrow> string \<Rightarrow> string list \<Rightarrow> files \<Rightarrow> js_error option \<times> files" where
  "writeFileLines outcome filename lines fs =
     storage_writeFile outcome filename (file_of_lines lines) fs"

subsection \<open>crashSafeWriteFileLines\<close>

text \<open>
  The state threaded through a rewrite: the files, and the log of the storage operations
  made so far, in order, each with what it reported.
\<close>

datatype io_step =
    Flush flush_options
  | WriteLines string "string list"
  | Rename string string

record world =
  files :: files
  trace :: "(io_step \<times> js_error option completion) list"

definition log_step :: "io_step \<Rightarrow> js_error option completion \<Rightarrow> world \<Rightarrow> world" where
  "log_step s outcome w = w\<lparr>trace := trace w @ [(s, outcome)]\<rparr>"

text \<open>
  \<^verbatim>\<open>async.waterfall\<close> of the async library, by its contract: the tasks run one after the
  other, the first error ends the run and is handed to the final callback, and the final
  callback gets no error when every task has called back without one. A task from which
  an exception escapes never calls back, so nothing after it runs.
\<close>

type_synonym task = "world \<Rightarrow> js_error option completion \<times> world"

fun waterfall :: "task list \<Rightarrow> task" where
  "waterfall [] w = (Callback None, w)"
| "waterfall (t # ts) w =
     (case t w of
        (Callback None, w') \<Rightarrow> waterfall ts w'
      | (Callback (Some e), w') \<Rightarrow> (Callback (Some e), w')
      | (Uncaught x, w') \<Rightarrow> (Uncaught x, w'))"

text \<open>
  The outcomes of the storage calls of one rewrite, one per call, so that the two flushes
  of the parent directory may end differently.
\<close>

record rewrite_io =
  flushDir1 :: fs_calls
  flushTarget :: fs_calls
  writeTemp :: write_outcome
  flushTemp :: fs_calls
  renameTemp :: "sys_error option"
  flushDir2 :: fs_calls

definition flush_task :: "fs_calls \<Rightarrow> flush_options \<Rightarrow> task" where
  "flush_task io options w =
     (let r = flushToStorage io options in (r, log_step (Flush options) r w))"

text \<open>\<^verbatim>\<open>path.dirname\<close> of Node is a parameter.\<close>

definition crashSafeWriteFileLines ::
  "(string \<Rightarrow> string) \<Rightarrow> rewrite_io \<Rightarrow> string \<Rightarrow> string list \<Rightarrow> task" where
  "crashSafeWriteFileLines dirname io filename lines =
     (let tempFilename = filename @ ''~'' in
      waterfall
        [ flush_task (flushDir1 io) (FlushOpts (dirname filename) True),
          (\<lambda>w. if storage_exists (files w) filename
                then flush_task (flushTarget io) (PathOnly filename) w
                else (Callback None, w)),
          (\<lambda>w. case writeFileLines (writeTemp io) tempFilename lines (files w) of
                  (err, fs') \<Rightarrow>
                    (Callback err,
                     log_step (WriteLines tempFilename lines) (Callback err) (w\<lparr>files := fs'\<rparr>))),
          flush_task (flushTemp io) (PathOnly tempFilename),
          (\<lambda>w. case storage_rename (renameTemp io) tempFilename filename (files w) of
                  (err, fs') \<Rightarrow>
                    (Callback err,
                     log_step (Rename tempFilename filename) (Callback err) (w\<lparr>files := fs'\<rparr>))),
          flush_task (flushDir2 io) (FlushOpts (dirname filename) True) ])"


subsection \<open>ensureDatafileIntegrity\<close>

record integrity_io =
  createEmpty :: write_outcome
  promoteTemp :: "sys_error option"

definition ensureDatafileIntegrity ::
  "integrity_io \<Rightarrow> string \<Rightarrow> files \<Rightarrow> js_error option \<times> files" where
  "ensureDatafileIntegrity io filename fs =
     (let tempFilename = filename @ ''~'' in
      if storage_exists fs filename then (None, fs)
      else if \<not> storage_exists fs tempFilename
        then storage_writeFile (createEmpty io) filename [] fs
        else storage_rename (promoteTemp io) tempFilename filename fs)"

section \<open>Persistence: \<^verbatim>\<open>lib/persistence.js\<close>\<close>

subsection \<open>JavaScript values\<close>

text \<open>
  The values a deserialized line can be. Numbers are integers here: the code only tests a
  number for truthiness and uses it as a property key.
\<close>

datatype jsval =
    JUndefined
  | JNull
  | JBool bool
  | JNum int
  | JStr string
  | JArr "jsval list"
  | JObj "(string \<times> jsval) list"

fun truthy :: "jsval \<Rightarrow> bool" where
  "truthy JUndefined = False"
| "truthy JNull = False"
| "truthy (JBool b) = b"
| "truthy (JNum n) = (n \<noteq> 0)"
| "truthy (JStr s) = (s \<noteq> [])"
| "truthy (JArr xs) = True"
| "truthy (JObj kvs) = True"

text \<open>
  Reading a property: of \<^verbatim>\<open>null\<close> and \<^verbatim>\<open>undefined\<close> it throws a TypeError (\<open>None\<close>), of an
  object it gives the property's value or \<^verbatim>\<open>undefined\<close>. The code reads the properties
  \<^verbatim>\<open>_id\<close>, \<^verbatim>\<open>$$deleted\<close>, \<^verbatim>\<open>$$indexCreated\<close>, \<^verbatim>\<open>$$indexRemoved\<close> and \<^verbatim>\<open>fieldName\<close> only, which no
  primitive value, array or built-in prototype has.
\<close>

fun get_prop :: "jsval \<Rightarrow> string \<Rightarrow> jsval option" where
  "get_prop JUndefined k = None"
| "get_prop JNull k = None"
| "get_prop (JObj kvs) k = Some (case map_of kvs k of None \<Rightarrow> JUndefined | Some v \<Rightarrow> v)"
| "get_prop v k = Some JUndefined"

text \<open>The string a value becomes when it is used as a property key.\<close>

fun digits :: "nat \<Rightarrow> string" where
  "digits n =
     (if n < 10 then [''0123456789'' ! n]
      else digits (n div 10) @ [''0123456789'' ! (n mod 10)])"

fun join_with :: "string \<Rightarrow> string list \<Rightarrow> string" where
  "join_with sep [] = []"
| "join_with sep [x] = x"
| "join_with sep (x # y # zs) = x @ sep @ join_with sep (y # zs)"

fun toPropertyKey :: "jsval \<Rightarrow> string" where
  "toPropertyKey JUndefined = ''undefined''"
| "toPropertyKey JNull = ''null''"
| "toPropertyKey (JBool b) = (if b then ''true'' else ''false'')"
| "toPropertyKey (JNum n) = (if n < 0 then ''-'' @ digits (nat (- n)) else digits (nat n))"
| "toPropertyKey (JStr s) = s"
| "toPropertyKey (JArr xs) =
     join_with '','' (map (\<lambda>x. if x = JUndefined \<or> x = JNull then [] else toPropertyKey x) xs)"
| "toPropertyKey (JObj kvs) = ''[object Object]''"

subsection \<open>Plain objects used as dictionaries\<close>

text \<open>
  \<^verbatim>\<open>dataById\<close> and \<^verbatim>\<open>indexes\<close> are created as \<^verbatim>\<open>{}\<close>: ordinary objects whose prototype is
  \<^verbatim>\<open>Object.prototype\<close>. Such an object has its own properties, which \<^verbatim>\<open>Object.values\<close> and
  \<^verbatim>\<open>Object.keys\<close> list and \<^verbatim>\<open>delete\<close> removes, and a prototype. An assignment
  \<^verbatim>\<open>obj[k] = v\<close> creates or updates the own property \<open>k\<close>, except when \<open>k\<close> is \<^verbatim>\<open>__proto__\<close>
  and the lookup of \<open>k\<close> along the prototype chain reaches the accessor
  \<^verbatim>\<open>Object.prototype.__proto__\<close>: then the setter runs, which replaces the prototype of
  \<^verbatim>\<open>obj\<close> when \<open>v\<close> is an object or \<^verbatim>\<open>null\<close> and does nothing otherwise, and no own property
  is created. The lookup does not reach the accessor when \<^verbatim>\<open>obj\<close> has an own property
  \<^verbatim>\<open>__proto__\<close>, when the prototype is \<^verbatim>\<open>null\<close>, or when the prototype is a parsed object
  that has an own property \<^verbatim>\<open>__proto__\<close> (which \<^verbatim>\<open>JSON.parse\<close> creates as a data property).

  The own properties are kept in creation order; the theorems read them through
  \<^const>\<open>map_of\<close>, so the order in which \<^verbatim>\<open>Object.values\<close> lists them plays no role.
\<close>

datatype prototype = ObjectPrototype | NullPrototype | ValuePrototype jsval

record dict =
  own :: "(string \<times> jsval) list"
  proto :: prototype

definition empty_dict :: dict where
  "empty_dict = \<lparr> own = [], proto = ObjectPrototype \<rparr>"

definition reaches_proto_setter :: "dict \<Rightarrow> bool" where
  "reaches_proto_setter d =
     (''__proto__'' \<notin> set (map fst (own d)) \<and>
      (case proto d of
         ObjectPrototype \<Rightarrow> True
       | NullPrototype \<Rightarrow> False
       | ValuePrototype (JObj kvs) \<Rightarrow> ''__proto__'' \<notin> set (map fst kvs)
       | ValuePrototype _ \<Rightarrow> True))"

definition dict_set :: "dict \<Rightarrow> string \<Rightarrow> jsval \<Rightarrow> dict" where
  "dict_set d k v =
     (if k = ''__proto__'' \<and> reaches_proto_setter d then
        (case v of
           JObj _ \<Rightarrow> d\<lparr>proto := ValuePrototype v\<rparr>
         | JArr _ \<Rightarrow> d\<lparr>proto := ValuePrototype v\<rparr>
         | JNull \<Rightarrow> d\<lparr>proto := NullPrototype\<rparr>
         | _ \<Rightarrow> d)
      else d\<lparr>own := AList.update k v (own d)\<rparr>)"

definition dict_delete :: "dict \<Rightarrow> string \<Rightarrow> dict" where
  "dict_delete d k = d\<lparr>own := AList.delete k (own d)\<rparr>"

subsection \<open>The Persistence object and its constructor\<close>

text \<open>
  The hooks are functions from strings to strings, as the package's type declarations
  have them. The threshold is a rational number: the rounding of JavaScript's
  floating-point division is not modelled.
\<close>

record persistence =
  inMemoryOnly :: bool
  p_filename :: "string option"
  corruptAlertThreshold :: rat
  afterSerialization :: "string \<Rightarrow> string"
  beforeDeserialization :: "string \<Rightarrow> string"

text \<open>
  The constructor's argument: \<^verbatim>\<open>options.db.inMemoryOnly\<close>, \<^verbatim>\<open>options.db.filename\<close> (a string or
  \<^verbatim>\<open>null\<close>) and the optional fields of \<^verbatim>\<open>options\<close>, \<open>None\<close> when left out.
\<close>

record options =
  db_inMemoryOnly :: bool
  db_filename :: "string option"
  o_corruptAlertThreshold :: "rat option"
  o_afterSerialization :: "(string \<Rightarrow> string) option"
  o_beforeDeserialization :: "(string \<Rightarrow> string) option"
  o_nodeWebkitAppName :: "string option"

datatype ctor_error =
    ReservedSuffix
  | SerializationWithoutDeserialization
  | DeserializationWithoutSerialization
  | HooksNotInverse
  | NodeWebkitPath

text \<open>A string or \<^verbatim>\<open>null\<close> is truthy when it is a non-empty string.\<close>

definition truthy_string :: "string option \<Rightarrow> bool" where
  "truthy_string s = (case s of None \<Rightarrow> False | Some [] \<Rightarrow> False | Some (c # cs) \<Rightarrow> True)"

text \<open>\<^verbatim>\<open>this.filename && this.filename.charAt(this.filename.length - 1) === '~'\<close>\<close>

definition ends_with_tilde :: "string option \<Rightarrow> bool" where
  "ends_with_tilde filename =
     (case filename of
        None \<Rightarrow> False
      | Some f \<Rightarrow> truthy_string filename \<and> last f = CHR ''~'')"

definition supplied :: "'a option \<Rightarrow> bool" where
  "supplied h = (case h of None \<Rightarrow> False | Some _ \<Rightarrow> True)"

text \<open>
  The probe. \<open>uid i j\<close> is the random string that the call \<^verbatim>\<open>customUtils.uid(i)\<close> returns
  in the round \<open>j\<close> of the inner loop; the result is whether the loops end without a throw.
\<close>

function probe_inner ::
  "(string \<Rightarrow> string) \<Rightarrow> (string \<Rightarrow> string) \<Rightarrow> (nat \<Rightarrow> nat \<Rightarrow> string) \<Rightarrow> nat \<Rightarrow> nat \<Rightarrow> bool" where
  "probe_inner aS bD uid i j =
     (if j < 10 then
        (let randomString = uid i j in
         if bD (aS randomString) \<noteq> randomString then False
         else probe_inner aS bD uid i (j + 1))
      else True)"
  by pat_completeness auto
termination
  by (relation "measure (\<lambda>(aS, bD, uid, i, j). 10 - j)") auto

function probe_outer ::
  "(string \<Rightarrow> string) \<Rightarrow> (string \<Rightarrow> string) \<Rightarrow> (nat \<Rightarrow> nat \<Rightarrow> string) \<Rightarrow> nat \<Rightarrow> bool" where
  "probe_outer aS bD uid i =
     (if i < 30 then
        (if probe_inner aS bD uid i 0 then probe_outer aS bD uid (i + 1) else False)
      else True)"
  by pat_completeness auto
termination
  by (relation "measure (\<lambda>(aS, bD, uid, i). 30 - i)") auto

declare probe_inner.simps [simp del] probe_outer.simps [simp del]

text \<open>
  \<^verbatim>\<open>Persistence.getNWAppFilename\<close> reads \<^verbatim>\<open>process.platform\<close> and \<^verbatim>\<open>process.env\<close> and may
  throw; it is a parameter that gives the new file name or fails.
\<close>

definition Persistence ::
  "(nat \<Rightarrow> nat \<Rightarrow> string) \<Rightarrow> (string \<Rightarrow> string \<Rightarrow> string option) \<Rightarrow> options
     \<Rightarrow> ctor_error + persistence" where
  "Persistence uid getNWAppFilename opts =
     (let threshold = (case o_corruptAlertThreshold opts of None \<Rightarrow> 1 / 10 | Some t \<Rightarrow> t) in
      if \<not> db_inMemoryOnly opts \<and> ends_with_tilde (db_filename opts) then Inl ReservedSuffix
      else if supplied (o_afterSerialization opts) \<and> \<not> supplied (o_beforeDeserialization opts)
        then Inl SerializationWithoutDeserialization
      else if \<not> supplied (o_afterSerialization opts) \<and> supplied (o_beforeDeserialization opts)
        then Inl DeserializationWithoutSerialization
      else
        (let aS = (case o_afterSerialization opts of None \<Rightarrow> (\<lambda>s. s) | Some f \<Rightarrow> f);
             bD = (case o_beforeDeserialization opts of None \<Rightarrow> (\<lambda>s. s) | Some f \<Rightarrow> f);
             this = \<lparr> inMemoryOnly = db_inMemoryOnly opts, p_filename = db_filename opts,
                      corruptAlertThreshold = threshold, afterSerialization = aS,
                      beforeDeserialization = bD \<rparr>
         in if \<not> probe_outer aS bD uid 1 then Inl HooksNotInverse
            else if truthy_string (db_filename opts) \<and> truthy_string (o_nodeWebkitAppName opts)
              then (case db_filename opts of
                      None \<Rightarrow> Inr this
                    | Some f \<Rightarrow>
                        (case o_nodeWebkitAppName opts of
                           None \<Rightarrow> Inr this
                         | Some appName \<Rightarrow>
                             (case getNWAppFilename appName f of
                                None \<Rightarrow> Inl NodeWebkitPath
                              | Some f' \<Rightarrow> Inr (this\<lparr>p_filename := Some f'\<rparr>))))
              else Inr this))"

subsection \<open>persistCachedDatabase\<close>

text \<open>
  What the function reads of \<^verbatim>\<open>this.db\<close>: the documents \<^verbatim>\<open>getAllData()\<close> returns, and the
  own properties of \<^verbatim>\<open>this.db.indexes\<close> in the order of \<^verbatim>\<open>Object.keys\<close>, each an index
  with its \<^verbatim>\<open>unique\<close> and \<^verbatim>\<open>sparse\<close> fields. \<^verbatim>\<open>model.serialize\<close> is a parameter.
\<close>

record index_info =
  unique :: jsval
  sparse :: jsval

record datastore =
  getAllData :: "jsval list"
  db_indexes :: "(string \<times> index_info) list"

definition indexCreated_doc :: "string \<Rightarrow> index_info \<Rightarrow> jsval" where
  "indexCreated_doc fieldName idx =
     JObj [(''$$indexCreated'',
            JObj [(''fieldName'', JStr fieldName), (''unique'', unique idx), (''sparse'', sparse idx)])]"

definition compaction_lines ::
  "(jsval \<Rightarrow> string) \<Rightarrow> persistence \<Rightarrow> datastore \<Rightarrow> string list" where
  "compaction_lines serialize this db =
     map (\<lambda>doc. afterSerialization this (serialize doc)) (getAllData db)
     @ map (\<lambda>entry. afterSerialization this (serialize (indexCreated_doc (fst entry) (snd entry))))
         (filter (\<lambda>entry. fst entry \<noteq> ''_id'') (db_indexes db))"

text \<open>
  The result is what the callback gets, the events emitted on \<^verbatim>\<open>this.db\<close>, and the state of
  the files. With \<^verbatim>\<open>this.filename\<close> being \<^verbatim>\<open>null\<close>, \<^verbatim>\<open>path.dirname\<close> throws a TypeError before
  anything is written.
\<close>

definition persistCachedDatabase ::
  "(jsval \<Rightarrow> string) \<Rightarrow> (string \<Rightarrow> string) \<Rightarrow> rewrite_io \<Rightarrow> persistence \<Rightarrow> datastore \<Rightarrow> world
     \<Rightarrow> js_error option completion \<times> string list \<times> world" where
  "persistCachedDatabase serialize dirname io this db w =
     (if inMemoryOnly this then (Callback None, [], w)
      else
        (let lines = compaction_lines serialize this db in
         case p_filename this of
           None \<Rightarrow> (Uncaught TypeError, [], w)
         | Some filename \<Rightarrow>
             (case crashSafeWriteFileLines dirname io filename lines w of
                (Callback (Some err), w') \<Rightarrow> (Callback (Some err), [], w')
              | (Callback None, w') \<Rightarrow> (Callback None, [''compaction.done''], w')
              | (Uncaught x, w') \<Rightarrow> (Uncaught x, [], w'))))"

subsection \<open>treatRawData\<close>

text \<open>\<^verbatim>\<open>rawData.split('\n')\<close>: the pieces between newlines, at least one.\<close>

fun split_newline :: "string \<Rightarrow> string list" where
  "split_newline [] = [[]]"
| "split_newline (c # cs) =
     (if c = CHR 0x0A then [] # split_newline cs
      else (case split_newline cs of
              [] \<Rightarrow> [[c]]
            | l # ls \<Rightarrow> (c # l) # ls))"

text \<open>
  The state of a replay: the two dictionaries and the counter of corrupt lines.
  \<^verbatim>\<open>model.deserialize\<close> is a parameter; it gives \<open>None\<close> when it throws.
\<close>

record replay =
  dataById :: dict
  indexes :: dict
  corruptItems :: int

definition replay_start :: replay where
  "replay_start = \<lparr> dataById = empty_dict, indexes = empty_dict, corruptItems = - 1 \<rparr>"

text \<open>
  One round of the \<^verbatim>\<open>for\<close> loop. The body of the \<^verbatim>\<open>try\<close> block gives the new dictionaries,
  or \<open>None\<close> when it throws; all its writes come after its last read, so a throw leaves
  the dictionaries as they were, and the \<^verbatim>\<open>catch\<close> block adds one to the counter.
\<close>

definition treatRawData_round ::
  "(string \<Rightarrow> jsval option) \<Rightarrow> persistence \<Rightarrow> string \<Rightarrow> replay \<Rightarrow> replay" where
  "treatRawData_round deserialize this datum st =
     (case
        do {
          doc \<leftarrow> deserialize (beforeDeserialization this datum);
          ident \<leftarrow> get_prop doc ''_id'';
          if truthy ident then
            do {
              deleted \<leftarrow> get_prop doc ''$$deleted'';
              if deleted = JBool True
              then Some (st\<lparr>dataById := dict_delete (dataById st) (toPropertyKey ident)\<rparr>)
              else Some (st\<lparr>dataById := dict_set (dataById st) (toPropertyKey ident) doc\<rparr>)
            }
          else
            do {
              indexCreated \<leftarrow> get_prop doc ''$$indexCreated'';
              fieldName \<leftarrow> (if truthy indexCreated then get_prop indexCreated ''fieldName''
                            else Some JUndefined);
              if truthy indexCreated \<and> fieldName \<noteq> JNull \<and> fieldName \<noteq> JUndefined
              then Some (st\<lparr>indexes :=
                            dict_set (indexes st) (toPropertyKey fieldName) indexCreated\<rparr>)
              else
                do {
                  indexRemoved \<leftarrow> get_prop doc ''$$indexRemoved'';
                  (case indexRemoved of
                     JStr s \<Rightarrow> Some (st\<lparr>indexes := dict_delete (indexes st) s\<rparr>)
                   | _ \<Rightarrow> Some st)
                }
            }
        }
      of
        Some st' \<Rightarrow> st'
      | None \<Rightarrow> st\<lparr>corruptItems := corruptItems st + 1\<rparr>)"

fun treatRawData_loop ::
  "(string \<Rightarrow> jsval option) \<Rightarrow> persistence \<Rightarrow> string list \<Rightarrow> replay \<Rightarrow> replay" where
  "treatRawData_loop deserialize this [] st = st"
| "treatRawData_loop deserialize this (datum # data) st =
     treatRawData_loop deserialize this data (treatRawData_round deserialize this datum st)"

datatype load_error = CorruptDatafile | StreamError sys_error

text \<open>
  The result \<^verbatim>\<open>{ data: Object.values(dataById), indexes: indexes }\<close>: \<open>data\<close> holds the own
  properties of \<^verbatim>\<open>dataById\<close>, of which \<^verbatim>\<open>Object.values\<close> lists the values.
\<close>

record treated =
  data :: "(string \<times> jsval) list"
  treated_indexes :: dict

definition treatRawData ::
  "(string \<Rightarrow> jsval option) \<Rightarrow> persistence \<Rightarrow> string \<Rightarrow> load_error + treated" where
  "treatRawData deserialize this rawData =
     (let data = split_newline rawData;
          st = treatRawData_loop deserialize this data replay_start
      in if length data > 0
            \<and> of_int (corruptItems st) / of_nat (length data) > corruptAlertThreshold this
         then Inl CorruptDatafile
         else Inr \<lparr> data = own (dataById st), treated_indexes = indexes st \<rparr>)"

subsection \<open>treatRawStream\<close>


datatype cb_call = CbError load_error | CbResult treated

record stream_state =
  s_dataById :: dict
  s_indexes :: dict
  s_corruptItems :: int
  s_length :: nat
  cb_calls :: "cb_call list"

definition stream_start :: stream_state where
  "stream_start = \<lparr> s_dataById = empty_dict, s_indexes = empty_dict, s_corruptItems = - 1,
                    s_length = 0, cb_calls = [] \<rparr>"

definition on_data ::
  "(string \<Rightarrow> jsval option) \<Rightarrow> persistence \<Rightarrow> string \<Rightarrow> stream_state \<Rightarrow> stream_state" where
  "on_data deserialize this line st =
     (let st1 =
        (case
           do {
             doc \<leftarrow> deserialize (beforeDeserialization this line);
             ident \<leftarrow> get_prop doc ''_id'';
             if truthy ident then
               do {
                 deleted \<leftarrow> get_prop doc ''$$deleted'';
                 if deleted = JBool True
                 then Some (st\<lparr>s_dataById := dict_delete (s_dataById st) (toPropertyKey ident)\<rparr>)
                 else Some (st\<lparr>s_dataById := dict_set (s_dataById st) (toPropertyKey ident) doc\<rparr>)
               }
             else
               do {
                 indexCreated \<leftarrow> get_prop doc ''$$indexCreated'';
                 fieldName \<leftarrow> (if truthy indexCreated then get_prop indexCreated ''fieldName''
                               else Some JUndefined);
                 if truthy indexCreated \<and> fieldName \<noteq> JNull \<and> fieldName \<noteq> JUndefined
                 then Some (st\<lparr>s_indexes :=
                               dict_set (s_indexes st) (toPropertyKey fieldName) indexCreated\<rparr>)
                 else
                   do {
                     indexRemoved \<leftarrow> get_prop doc ''$$indexRemoved'';
                     (case indexRemoved of
                        JStr s \<Rightarrow> Some (st\<lparr>s_indexes := dict_delete (s_indexes st) s\<rparr>)
                      | _ \<Rightarrow> Some st)
                   }
               }
           }
         of
           Some st' \<Rightarrow> st'
         | None \<Rightarrow> st\<lparr>s_corruptItems := s_corruptItems st + 1\<rparr>)
      in st1\<lparr>s_length := s_length st1 + 1\<rparr>)"






section \<open>Notions used by the statements\<close>

text \<open>The part of the stream handlers' state that the loop of \<^verbatim>\<open>treatRawData\<close> has too.\<close>

definition replay_of :: "stream_state \<Rightarrow> replay" where
  "replay_of st =
     \<lparr> dataById = s_dataById st, indexes = s_indexes st, corruptItems = s_corruptItems st \<rparr>"

text \<open>The text whose lines are the given ones: the lines with a newline between them.\<close>

fun join_newline :: "string list \<Rightarrow> string" where
  "join_newline [] = []"
| "join_newline [l] = l"
| "join_newline (l # m # ls) = l @ CHR 0x0A # join_newline (m # ls)"

text \<open>
  A line is corrupt when the \<^verbatim>\<open>try\<close> block throws on it: \<^verbatim>\<open>model.deserialize\<close> throws, or it
  gives \<^verbatim>\<open>null\<close> or \<^verbatim>\<open>undefined\<close>, of which the read of \<^verbatim>\<open>_id\<close> throws.
\<close>

definition corrupt_line :: "(string \<Rightarrow> jsval option) \<Rightarrow> persistence \<Rightarrow> string \<Rightarrow> bool" where
  "corrupt_line deserialize this datum =
     (case deserialize (beforeDeserialization this datum) of
        None \<Rightarrow> True
      | Some doc \<Rightarrow> doc = JNull \<or> doc = JUndefined)"

text \<open>
  What a line does to the records: nothing, or it stores a document under a key, or it
  deletes a key. The second component is the document stored, \<open>None\<close> for a tombstone.
\<close>

definition record_effect :: "(string \<Rightarrow> jsval option) \<Rightarrow> persistence \<Rightarrow> string \<Rightarrow> (string \<times> jsval option) option" where
  "record_effect deserialize this datum =
     (case deserialize (beforeDeserialization this datum) of
        None \<Rightarrow> None
      | Some doc \<Rightarrow>
          (case get_prop doc ''_id'' of
             None \<Rightarrow> None
           | Some ident \<Rightarrow>
               if truthy ident
               then Some (toPropertyKey ident,
                          if get_prop doc ''$$deleted'' = Some (JBool True) then None else Some doc)
               else None))"

text \<open>What a line does to the index directives, in the same form.\<close>

definition index_effect :: "(string \<Rightarrow> jsval option) \<Rightarrow> persistence \<Rightarrow> string \<Rightarrow> (string \<times> jsval option) option" where
  "index_effect deserialize this datum =
     (case deserialize (beforeDeserialization this datum) of
        None \<Rightarrow> None
      | Some doc \<Rightarrow>
          (case get_prop doc ''_id'' of
             None \<Rightarrow> None
           | Some ident \<Rightarrow>
               if truthy ident then None
               else
                 (case get_prop doc ''$$indexCreated'' of
                    None \<Rightarrow> None
                  | Some ic \<Rightarrow>
                      (case (if truthy ic then get_prop ic ''fieldName'' else Some JUndefined) of
                         None \<Rightarrow> None
                       | Some fieldName \<Rightarrow>
                           if truthy ic \<and> fieldName \<noteq> JNull \<and> fieldName \<noteq> JUndefined
                           then Some (toPropertyKey fieldName, Some ic)
                           else
                             (case get_prop doc ''$$indexRemoved'' of
                                Some (JStr s) \<Rightarrow> Some (s, None)
                              | _ \<Rightarrow> None)))))"

definition apply_effect :: "(string \<times> jsval option) option \<Rightarrow> dict \<Rightarrow> dict" where
  "apply_effect eff d =
     (case eff of
        None \<Rightarrow> d
      | Some (k, None) \<Rightarrow> dict_delete d k
      | Some (k, Some v) \<Rightarrow> dict_set d k v)"

text \<open>
  What a deserialized line carries: a truthy \<^verbatim>\<open>_id\<close>; a truthy \<^verbatim>\<open>$$indexCreated\<close> whose
  \<^verbatim>\<open>fieldName\<close> is neither \<^verbatim>\<open>null\<close> nor \<^verbatim>\<open>undefined\<close>; a string \<^verbatim>\<open>$$indexRemoved\<close>.
\<close>

definition has_identifier :: "jsval \<Rightarrow> bool" where
  "has_identifier doc = (case get_prop doc ''_id'' of None \<Rightarrow> False | Some ident \<Rightarrow> truthy ident)"

definition creates_index :: "jsval \<Rightarrow> bool" where
  "creates_index doc =
     (case get_prop doc ''$$indexCreated'' of
        None \<Rightarrow> False
      | Some ic \<Rightarrow>
          truthy ic \<and>
          (case get_prop ic ''fieldName'' of
             None \<Rightarrow> False
           | Some fieldName \<Rightarrow> fieldName \<noteq> JNull \<and> fieldName \<noteq> JUndefined))"

definition removes_index :: "jsval \<Rightarrow> bool" where
  "removes_index doc = (case get_prop doc ''$$indexRemoved'' of Some (JStr s) \<Rightarrow> True | _ \<Rightarrow> False)"

text \<open>
  The hooks the constructor installs (the identity for a hook left out), the object it
  builds when no check fails and \<^verbatim>\<open>nodeWebkitAppName\<close> is not used, and the failure of the
  probe: one of the ten strings drawn for one of the lengths 1 to 29 does not come back.
\<close>

definition hook_or_identity :: "(string \<Rightarrow> string) option \<Rightarrow> string \<Rightarrow> string" where
  "hook_or_identity h = (case h of None \<Rightarrow> (\<lambda>s. s) | Some f \<Rightarrow> f)"

definition ctor_this :: "options \<Rightarrow> persistence" where
  "ctor_this opts =
     \<lparr> inMemoryOnly = db_inMemoryOnly opts, p_filename = db_filename opts,
       corruptAlertThreshold = (case o_corruptAlertThreshold opts of None \<Rightarrow> 1 / 10 | Some t \<Rightarrow> t),
       afterSerialization = hook_or_identity (o_afterSerialization opts),
       beforeDeserialization = hook_or_identity (o_beforeDeserialization opts) \<rparr>"

definition probe_fails :: "(nat \<Rightarrow> nat \<Rightarrow> string) \<Rightarrow> options \<Rightarrow> bool" where
  "probe_fails uid opts =
     (\<exists>i \<in> {1..<30}. \<exists>j \<in> {0..<10}.
        hook_or_identity (o_beforeDeserialization opts)
          (hook_or_identity (o_afterSerialization opts) (uid i j)) \<noteq> uid i j)"

section \<open>Sample inputs\<close>

text \<open>
  Outcomes of a rewrite in which every call succeeds, in which the write of the temporary
  file fails, and in which the close after the flush of the temporary file fails; a file
  system that holds a datafile; outcomes of the recovery check.
\<close>

definition ok_io :: rewrite_io where
  "ok_io = \<lparr> flushDir1 = all_ok, flushTarget = all_ok, writeTemp = Written,
             flushTemp = all_ok, renameTemp = None, flushDir2 = all_ok \<rparr>"



definition old_world :: world where
  "old_world = \<lparr> files = [''/data/menu.db'' \<mapsto> ''old''], trace = [] \<rparr>"

definition integrity_ok :: integrity_io where
  "integrity_ok = \<lparr> createEmpty = Written, promoteTemp = None \<rparr>"

definition integrity_failing :: integrity_io where
  "integrity_failing =
     \<lparr> createEmpty = WriteFailed (SysError (Some ''EACCES'')) None,
       promoteTemp = Some (SysError (Some ''EPERM'')) \<rparr>"

text \<open>
  Sample lines, and a deserializer that knows them: it gives what \<^verbatim>\<open>JSON.parse\<close> gives on
  each sample line and throws on every other line (the empty line among them).
\<close>

definition line_a :: string where
  \<open>line_a = ''{"_id":"a","n":1}''\<close>

definition doc_a :: jsval where
  "doc_a = JObj [(''_id'', JStr ''a''), (''n'', JNum 1)]"

definition line_a2 :: string where
  \<open>line_a2 = ''{"_id":"a","n":2}''\<close>

definition doc_a2 :: jsval where
  "doc_a2 = JObj [(''_id'', JStr ''a''), (''n'', JNum 2)]"

definition line_delete_a :: string where
  \<open>line_delete_a = ''{"_id":"a","$$deleted":true}''\<close>

definition doc_delete_a :: jsval where
  "doc_delete_a = JObj [(''_id'', JStr ''a''), (''$$deleted'', JBool True)]"

definition line_index_n :: string where
  \<open>line_index_n = ''{"$$indexCreated":{"fieldName":"n","unique":true}}''\<close>

definition doc_index_n :: jsval where
  "doc_index_n =
     JObj [(''$$indexCreated'', JObj [(''fieldName'', JStr ''n''), (''unique'', JBool True)])]"

definition line_no_id :: string where
  \<open>line_no_id = ''{"n":1,"$$deleted":true}''\<close>

definition doc_no_id :: jsval where
  "doc_no_id = JObj [(''n'', JNum 1), (''$$deleted'', JBool True)]"

definition line_null :: string where
  "line_null = ''null''"

definition line_proto :: string where
  \<open>line_proto = ''{"_id":"__proto__","n":1}''\<close>

definition doc_proto :: jsval where
  "doc_proto = JObj [(''_id'', JStr ''__proto__''), (''n'', JNum 1)]"

definition line_proto_own :: string where
  \<open>line_proto_own = ''{"_id":"__proto__","__proto__":0}''\<close>

definition doc_proto_own :: jsval where
  "doc_proto_own = JObj [(''_id'', JStr ''__proto__''), (''__proto__'', JNum 0)]"

definition parse_sample :: "string \<Rightarrow> jsval option" where
  "parse_sample =
     map_of [(line_a, doc_a), (line_a2, doc_a2), (line_delete_a, doc_delete_a),
             (line_index_n, doc_index_n), (line_no_id, doc_no_id), (line_null, JNull),
             (line_proto, doc_proto), (line_proto_own, doc_proto_own)]"

definition sample_persistence :: persistence where
  "sample_persistence =
     \<lparr> inMemoryOnly = False, p_filename = Some ''/data/menu.db'',
       corruptAlertThreshold = 1 / 10, afterSerialization = (\<lambda>s. s),
       beforeDeserialization = (\<lambda>s. s) \<rparr>"



text \<open>
  Options of a durable store without hooks, a source of random strings, and the options
  of an in-memory-only store whose file name ends in \<^verbatim>\<open>~\<close>.
\<close>

definition sample_uid :: "nat \<Rightarrow> nat \<Rightarrow> string" where
  "sample_uid i j = replicate i (CHR ''a'')"

definition sample_options :: options where
  "sample_options =
     \<lparr> db_inMemoryOnly = False, db_filename = Some ''/data/menu.db'',
       o_corruptAlertThreshold = None,
       o_afterSerialization = None, o_beforeDeserialization = None, o_nodeWebkitAppName = None \<rparr>"

definition in_memory_tilde_options :: options where
  "in_memory_tilde_options = sample_options\<lparr> db_inMemoryOnly := True, db_filename := Some ''menu.db~'' \<rparr>"

text \<open>A store of one document with the index on \<^verbatim>\<open>_id\<close> and one on \<^verbatim>\<open>n\<close>, and a serializer.\<close>

definition line_index_n_full :: string where
  \<open>line_index_n_full = ''{"$$indexCreated":{"fieldName":"n","unique":true,"sparse":false}}''\<close>

definition sample_index :: index_info where
  "sample_index = \<lparr> unique = JBool True, sparse = JBool False \<rparr>"

definition sample_serialize :: "jsval \<Rightarrow> string" where
  "sample_serialize doc =
     (if doc = doc_a then line_a
      else if doc = indexCreated_doc ''n'' sample_index then line_index_n_full
      else ''{}'')"

definition sample_db :: datastore where
  "sample_db = \<lparr> getAllData = [doc_a], db_indexes = [(''_id'', sample_index), (''n'', sample_index)] \<rparr>"

definition in_memory_persistence :: persistence where
  "in_memory_persistence = sample_persistence\<lparr> inMemoryOnly := True, p_filename := None \<rparr>"

section \<open>Properties of flushToStorage\<close>

text \<open>
  C8: a failure of \<^verbatim>\<open>open\<close> is reported as success exactly when its code is EISDIR and the
  flush is a directory flush, and is handed to the callback unchanged otherwise; a failure
  of \<^verbatim>\<open>fsync\<close> is reported as success exactly when its code is EPERM or EISDIR and the flush
  is a directory flush, and as the error "Failed to flush to storage" otherwise, whatever
  \<^verbatim>\<open>close\<close> returned.
\<close>

theorem flushToStorage_unsupported:
  "(fs_open io (opt_filename options) (opt_flags options) = Inl err \<longrightarrow>
      flushToStorage io options =
        (if code err = Some ''EISDIR'' \<and> opt_isDir options then Callback None
         else Callback (Some (Sys err))))
   \<and> (fs_open io (opt_filename options) (opt_flags options) = Inr fd \<and> fs_fsync io fd = Some e \<longrightarrow>
      flushToStorage io options =
        (if (code e = Some ''EPERM'' \<or> code e = Some ''EISDIR'') \<and> opt_isDir options
         then Callback None
         else Callback (Some (FlushFailed (Some e) (fs_close io fd)))))"
  by (simp add: flushToStorage_def is_error_def Let_def)

theorem flushToStorage_unsupported_witness:
  "flushToStorage (fixed_calls (Some (SysError (Some ''EISDIR''))) None None)
       (FlushOpts ''/data'' True) = Callback None
   \<and> flushToStorage (fixed_calls (Some (SysError (Some ''EISDIR''))) None None)
       (PathOnly ''/data/menu.db'') = Callback (Some (Sys (SysError (Some ''EISDIR''))))
   \<and> flushToStorage (fixed_calls (Some (SysError (Some ''ENOENT''))) None None)
       (FlushOpts ''/data'' True) = Callback (Some (Sys (SysError (Some ''ENOENT''))))
   \<and> flushToStorage (fixed_calls None (Some (SysError (Some ''EPERM''))) None)
       (FlushOpts ''/data'' True) = Callback None
   \<and> flushToStorage (fixed_calls None (Some (SysError (Some ''EPERM''))) None)
       (FlushOpts ''/data/menu.db'' False) =
         Callback (Some (FlushFailed (Some (SysError (Some ''EPERM''))) None))
   \<and> flushToStorage (fixed_calls None (Some (SysError (Some ''EIO''))) None)
       (FlushOpts ''/data'' True) =
         Callback (Some (FlushFailed (Some (SysError (Some ''EIO''))) None))"
proof -
  let ?eisdir = "SysError (Some ''EISDIR'')"
  let ?enoent = "SysError (Some ''ENOENT'')"
  let ?eperm = "SysError (Some ''EPERM'')"
  let ?eio = "SysError (Some ''EIO'')"
  note a = flushToStorage_unsupported
    [of "fixed_calls (Some ?eisdir) None None" "FlushOpts ''/data'' True" ?eisdir 3 ?eisdir]
  note b = flushToStorage_unsupported
    [of "fixed_calls (Some ?eisdir) None None" "PathOnly ''/data/menu.db''" ?eisdir 3 ?eisdir]
  note c = flushToStorage_unsupported
    [of "fixed_calls (Some ?enoent) None None" "FlushOpts ''/data'' True" ?enoent 3 ?enoent]
  note d = flushToStorage_unsupported
    [of "fixed_calls None (Some ?eperm) None" "FlushOpts ''/data'' True" ?eperm 3 ?eperm]
  note e = flushToStorage_unsupported
    [of "fixed_calls None (Some ?eperm) None" "FlushOpts ''/data/menu.db'' False" ?eperm 3 ?eperm]
  note f = flushToStorage_unsupported
    [of "fixed_calls None (Some ?eio) None" "FlushOpts ''/data'' True" ?eio 3 ?eio]
  show ?thesis
    using a b c d e f
    by (simp add: fixed_calls_def opt_isDir_def)
qed

text \<open>
  C9: the run in which \<^verbatim>\<open>open\<close> and \<^verbatim>\<open>fsync\<close> succeed and \<^verbatim>\<open>close\<close> fails. The callback
  is not called: the read of \<^verbatim>\<open>errFS.code\<close> on \<^verbatim>\<open>null\<close> throws.
\<close>

theorem flushToStorage_close_failure_throws:
  "flushToStorage (fixed_calls None None (Some (SysError (Some ''EIO''))))
     (PathOnly ''/data/menu.db'') = Uncaught TypeError"
  by (simp add: flushToStorage_def fixed_calls_def is_error_def Let_def)

section \<open>Properties of the atomic rewrite and of the recovery check\<close>



text \<open>
  C2: when the target exists the recovery check changes nothing and reports success; when
  the target is missing and the temporary file exists it renames the temporary file to the
  target, so that (the rename succeeding) the target holds the temporary file's content
  and the temporary file is gone; when neither exists it writes an empty target. A failure
  of the rename or of the write is reported.
\<close>

theorem ensureDatafileIntegrity_cases:
  assumes "ensureDatafileIntegrity io filename fs = (err, fs')"
  shows "(storage_exists fs filename \<longrightarrow> err = None \<and> fs' = fs)
     \<and> (fs filename = None \<and> fs (filename @ ''~'') = Some c \<longrightarrow>
          (promoteTemp io = None \<longrightarrow>
             err = None \<and> fs' = (fs(filename @ ''~'' := None))(filename \<mapsto> c))
        \<and> (promoteTemp io = Some e \<longrightarrow> err = Some (Sys e) \<and> fs' = fs))
     \<and> (fs filename = None \<and> fs (filename @ ''~'') = None \<longrightarrow>
          (createEmpty io = Written \<longrightarrow> err = None \<and> fs' = fs(filename \<mapsto> []))
        \<and> (createEmpty io = WriteFailed e left \<longrightarrow>
             err = Some (Sys e) \<and> fs' = fs(filename := left)))"
  using assms
  by (auto simp: ensureDatafileIntegrity_def Let_def storage_exists_def is_error_def
      storage_rename_def storage_writeFile_def
      split: option.splits if_splits write_outcome.splits)

theorem ensureDatafileIntegrity_cases_witness:
  "ensureDatafileIntegrity integrity_ok ''menu.db'' [''menu.db'' \<mapsto> ''x'']
     = (None, [''menu.db'' \<mapsto> ''x''])
   \<and> fst (ensureDatafileIntegrity integrity_ok ''menu.db'' [''menu.db~'' \<mapsto> ''y'']) = None
   \<and> snd (ensureDatafileIntegrity integrity_ok ''menu.db'' [''menu.db~'' \<mapsto> ''y'']) ''menu.db''
       = Some ''y''
   \<and> snd (ensureDatafileIntegrity integrity_ok ''menu.db'' [''menu.db~'' \<mapsto> ''y'']) ''menu.db~''
       = None
   \<and> fst (ensureDatafileIntegrity integrity_ok ''menu.db'' Map.empty) = None
   \<and> snd (ensureDatafileIntegrity integrity_ok ''menu.db'' Map.empty) ''menu.db'' = Some []
   \<and> ensureDatafileIntegrity integrity_failing ''menu.db'' [''menu.db~'' \<mapsto> ''y'']
     = (Some (Sys (SysError (Some ''EPERM''))), [''menu.db~'' \<mapsto> ''y''])
   \<and> fst (ensureDatafileIntegrity integrity_failing ''menu.db'' Map.empty)
     = Some (Sys (SysError (Some ''EACCES'')))
   \<and> snd (ensureDatafileIntegrity integrity_failing ''menu.db'' Map.empty) ''menu.db'' = None"
  using
    ensureDatafileIntegrity_cases [OF prod.collapse [symmetric],
      where io = integrity_ok and filename = "''menu.db''" and fs = "[''menu.db'' \<mapsto> ''x'']" and c = "''y''"]
    ensureDatafileIntegrity_cases [OF prod.collapse [symmetric],
      where io = integrity_ok and filename = "''menu.db''" and fs = "[''menu.db~'' \<mapsto> ''y'']" and c = "''y''"]
    ensureDatafileIntegrity_cases [OF prod.collapse [symmetric],
      where io = integrity_ok and filename = "''menu.db''" and fs = "Map.empty" and c = "''y''"]
    ensureDatafileIntegrity_cases [OF prod.collapse [symmetric],
      where io = integrity_failing and filename = "''menu.db''"
        and fs = "[''menu.db~'' \<mapsto> ''y'']" and c = "''y''" and e = "SysError (Some ''EPERM'')"]
    ensureDatafileIntegrity_cases [OF prod.collapse [symmetric],
      where io = integrity_failing and filename = "''menu.db''" and fs = "Map.empty"
        and e = "SysError (Some ''EACCES'')" and left = None]
  by (simp add: integrity_ok_def integrity_failing_def storage_exists_def prod_eq_iff)

section \<open>Properties of the replay\<close>

lemma on_data_round:
  "replay_of (on_data deserialize this line st) = treatRawData_round deserialize this line (replay_of st)"
  by (simp add: on_data_def treatRawData_round_def replay_of_def Let_def
       split: Option.bind_splits option.splits if_splits jsval.splits)

lemma on_data_length: "s_length (on_data deserialize this line st) = s_length st + 1"
  by (simp add: on_data_def Let_def split: Option.bind_splits option.splits if_splits jsval.splits)

lemma on_data_calls: "cb_calls (on_data deserialize this line st) = cb_calls st"
  by (simp add: on_data_def Let_def split: Option.bind_splits option.splits if_splits jsval.splits)






lemma split_newline_append:
  "CHR 0x0A \<notin> set l \<Longrightarrow> split_newline (l @ CHR 0x0A # s) = l # split_newline s"
  by (induction l) (auto split: list.splits)



lemma get_prop_None: "(get_prop v k = None) = (v = JNull \<or> v = JUndefined)"
  by (cases v) auto

lemma truthy_get_prop: "truthy v \<Longrightarrow> get_prop v k \<noteq> None"
  by (cases v) auto

lemma round_corrupt:
  "corruptItems (treatRawData_round deserialize this datum st) =
     corruptItems st + (if corrupt_line deserialize this datum then 1 else 0)"
proof (cases "deserialize (beforeDeserialization this datum)")
  case None
  then show ?thesis by (simp add: treatRawData_round_def corrupt_line_def)
next
  case (Some doc)
  show ?thesis
  proof (cases "doc = JNull \<or> doc = JUndefined")
    case True
    then show ?thesis using Some by (auto simp add: treatRawData_round_def corrupt_line_def)
  next
    case False
    then have g: "get_prop doc k \<noteq> None" for k by (simp add: get_prop_None)
    have c: "\<not> corrupt_line deserialize this datum"
      using Some False by (simp add: corrupt_line_def)
    show ?thesis
      using g [of "''_id''"] g [of "''$$deleted''"] g [of "''$$indexCreated''"] g [of "''$$indexRemoved''"]
      by (auto simp add: treatRawData_round_def c Some dest: truthy_get_prop
          split: Option.bind_splits if_splits jsval.splits)
  qed
qed


lemma round_effects:
  "dataById (treatRawData_round deserialize this datum st)
     = apply_effect (record_effect deserialize this datum) (dataById st)
   \<and> indexes (treatRawData_round deserialize this datum st)
     = apply_effect (index_effect deserialize this datum) (indexes st)"
  by (auto simp add: treatRawData_round_def record_effect_def index_effect_def apply_effect_def get_prop_None
       split: Option.bind_splits option.splits if_splits jsval.splits)

lemma map_of_dict_set:
  "k \<noteq> ''__proto__'' \<Longrightarrow> map_of (own (dict_set d k v)) = (map_of (own d))(k \<mapsto> v)"
  by (simp add: dict_set_def update_conv')

lemma map_of_dict_set_other:
  "k' \<noteq> k \<Longrightarrow> map_of (own (dict_set d k v)) k' = map_of (own d) k'"
  by (simp add: dict_set_def update_conv' split: jsval.splits)

lemma map_of_dict_delete:
  "map_of (own (dict_delete d k)) = (map_of (own d))(k := None)"
  by (simp add: dict_delete_def delete_conv')

lemma apply_effect_other:
  "(\<forall>v. eff \<noteq> Some (k, v)) \<Longrightarrow> map_of (own (apply_effect eff d)) k = map_of (own d) k"
  by (auto simp add: apply_effect_def map_of_dict_set_other map_of_dict_delete split: option.splits)

lemma apply_effect_same:
  "k \<noteq> ''__proto__'' \<Longrightarrow> map_of (own (apply_effect (Some (k, v)) d)) k = v"
  by (auto simp add: apply_effect_def map_of_dict_set map_of_dict_delete split: option.splits)

lemma loop_append:
  "treatRawData_loop deserialize this (xs @ ys) st
     = treatRawData_loop deserialize this ys (treatRawData_loop deserialize this xs st)"
  by (induction xs arbitrary: st) simp_all

lemma loop_other_record:
  "(\<forall>l \<in> set ls. \<forall>v. record_effect deserialize this l \<noteq> Some (k, v)) \<Longrightarrow>
   map_of (own (dataById (treatRawData_loop deserialize this ls st))) k = map_of (own (dataById st)) k"
  by (induction ls arbitrary: st) (simp_all add: round_effects apply_effect_other)

lemma loop_other_index:
  "(\<forall>l \<in> set ls. \<forall>v. index_effect deserialize this l \<noteq> Some (k, v)) \<Longrightarrow>
   map_of (own (indexes (treatRawData_loop deserialize this ls st))) k = map_of (own (indexes st)) k"
  by (induction ls arbitrary: st) (simp_all add: round_effects apply_effect_other)

lemma no_effects:
  assumes "deserialize (beforeDeserialization this line) = Some doc"
    and "doc \<noteq> JNull" and "doc \<noteq> JUndefined"
    and "\<not> has_identifier doc"
  shows "record_effect deserialize this line = None"
    and "\<not> corrupt_line deserialize this line"
    and "\<not> creates_index doc \<and> \<not> removes_index doc \<Longrightarrow> index_effect deserialize this line = None"
proof -
  have g: "get_prop doc k \<noteq> None" for k using assms(2,3) by (simp add: get_prop_None)
  show "record_effect deserialize this line = None"
    using assms(1,4) g [of "''_id''"]
    by (auto simp add: record_effect_def has_identifier_def)
  show "\<not> corrupt_line deserialize this line"
    using assms(1-3) by (simp add: corrupt_line_def)
  show "index_effect deserialize this line = None" if "\<not> creates_index doc \<and> \<not> removes_index doc"
    using that assms(1,4) g [of "''_id''"] g [of "''$$indexCreated''"] g [of "''$$indexRemoved''"]
    by (auto simp add: index_effect_def has_identifier_def creates_index_def removes_index_def
        split: option.splits jsval.splits)
qed

lemma replay_of_eq:
  "replay_of a = replay_of b \<Longrightarrow> s_length a = s_length b \<Longrightarrow> cb_calls a = cb_calls b
     \<Longrightarrow> stream_state.more a = stream_state.more b \<Longrightarrow> a = b"
  by (cases a, cases b) (simp add: replay_of_def)

lemma on_data_more: "stream_state.more (on_data deserialize this line st) = stream_state.more st"
  by (simp add: on_data_def Let_def split: Option.bind_splits option.splits if_splits jsval.splits)







section \<open>Properties of the constructor and of the rewrite used by the compaction\<close>

lemma probe_inner_iff:
  "probe_inner aS bD uid i j = (\<forall>j'. j \<le> j' \<and> j' < 10 \<longrightarrow> bD (aS (uid i j')) = uid i j')"
proof (induction aS bD uid i j rule: probe_inner.induct)
  case (1 aS bD uid i j)
  show ?case
  proof (cases "j < 10")
    case False
    then show ?thesis by (auto simp add: probe_inner.simps [of aS bD uid i j])
  next
    case True
    show ?thesis
    proof (cases "bD (aS (uid i j)) = uid i j")
      case False
      with True show ?thesis
        by (auto simp add: probe_inner.simps [of aS bD uid i j])
    next
      case eq: True
      have "probe_inner aS bD uid i j = probe_inner aS bD uid i (j + 1)"
        using True eq by (simp add: probe_inner.simps [of aS bD uid i j])
      also have "\<dots> = (\<forall>j'. j + 1 \<le> j' \<and> j' < 10 \<longrightarrow> bD (aS (uid i j')) = uid i j')"
        using "1.IH" [OF True refl] eq by simp
      also have "\<dots> = (\<forall>j'. j \<le> j' \<and> j' < 10 \<longrightarrow> bD (aS (uid i j')) = uid i j')"
        using eq by (metis Suc_eq_plus1 Suc_leI le_neq_implies_less nat_less_le not_less_eq_eq order_refl le_SucI Suc_le_eq)
      finally show ?thesis .
    qed
  qed
qed

lemma probe_outer_iff:
  "probe_outer aS bD uid i =
     (\<forall>i' j. i \<le> i' \<and> i' < 30 \<and> j < 10 \<longrightarrow> bD (aS (uid i' j)) = uid i' j)"
proof (induction aS bD uid i rule: probe_outer.induct)
  case (1 aS bD uid i)
  show ?case
  proof (cases "i < 30")
    case False
    then show ?thesis by (auto simp add: probe_outer.simps [of aS bD uid i])
  next
    case True
    show ?thesis
    proof (cases "probe_inner aS bD uid i 0")
      case False
      with True show ?thesis
        by (auto simp add: probe_outer.simps [of aS bD uid i] probe_inner_iff)
    next
      case inner: True
      have "probe_outer aS bD uid i = probe_outer aS bD uid (i + 1)"
        using True inner by (simp add: probe_outer.simps [of aS bD uid i])
      also have "\<dots> = (\<forall>i' j. i + 1 \<le> i' \<and> i' < 30 \<and> j < 10 \<longrightarrow> bD (aS (uid i' j)) = uid i' j)"
        using "1.IH" [OF True inner] by simp
      also have "\<dots> = (\<forall>i' j. i \<le> i' \<and> i' < 30 \<and> j < 10 \<longrightarrow> bD (aS (uid i' j)) = uid i' j)"
      proof -
        have "bD (aS (uid i j)) = uid i j" if "j < 10" for j
          using inner that by (simp add: probe_inner_iff)
        then show ?thesis
          by (metis Suc_eq_plus1 Suc_leI le_neq_implies_less Suc_le_eq less_imp_le_nat)
      qed
      finally show ?thesis .
    qed
  qed
qed

lemma probe_fails_iff:
  "probe_fails uid opts =
     (\<not> probe_outer (hook_or_identity (o_afterSerialization opts))
          (hook_or_identity (o_beforeDeserialization opts)) uid 1)"
proof -
  let ?ok = "\<lambda>i j. hook_or_identity (o_beforeDeserialization opts)
             (hook_or_identity (o_afterSerialization opts) (uid i j)) = uid i j"
  have "(\<exists>i \<in> {1..<30}. \<exists>j \<in> {0..<10}. \<not> ?ok i j)
          = (\<not> (\<forall>i' j. 1 \<le> i' \<and> i' < 30 \<and> j < 10 \<longrightarrow> ?ok i' j))"
    by (simp add: Bex_def)
  then show ?thesis
    by (simp add: probe_fails_def probe_outer_iff)
qed

lemma ctor_suffix:
  "\<not> db_inMemoryOnly opts \<and> ends_with_tilde (db_filename opts) \<Longrightarrow>
     Persistence uid getNWAppFilename opts = Inl ReservedSuffix"
  by (simp add: Persistence_def)

lemma ctor_unpaired:
  "\<not> (\<not> db_inMemoryOnly opts \<and> ends_with_tilde (db_filename opts)) \<Longrightarrow>
   supplied (o_afterSerialization opts) \<noteq> supplied (o_beforeDeserialization opts) \<Longrightarrow>
     Persistence uid getNWAppFilename opts =
       (if supplied (o_afterSerialization opts) then Inl SerializationWithoutDeserialization
        else Inl DeserializationWithoutSerialization)"
  by (auto simp add: Persistence_def)

lemma ctor_probe:
  "\<not> (\<not> db_inMemoryOnly opts \<and> ends_with_tilde (db_filename opts)) \<Longrightarrow>
   supplied (o_afterSerialization opts) = supplied (o_beforeDeserialization opts) \<Longrightarrow>
   probe_fails uid opts \<Longrightarrow>
     Persistence uid getNWAppFilename opts = Inl HooksNotInverse"
  by (auto simp add: Persistence_def Let_def probe_fails_iff hook_or_identity_def)

lemma ctor_success:
  "\<not> (\<not> db_inMemoryOnly opts \<and> ends_with_tilde (db_filename opts)) \<Longrightarrow>
   supplied (o_afterSerialization opts) = supplied (o_beforeDeserialization opts) \<Longrightarrow>
   \<not> probe_fails uid opts \<Longrightarrow>
   \<not> truthy_string (o_nodeWebkitAppName opts) \<Longrightarrow>
     Persistence uid getNWAppFilename opts = Inr (ctor_this opts)"
  by (auto simp add: Persistence_def Let_def probe_fails_iff hook_or_identity_def ctor_this_def)

lemma sample_probe:
  "\<not> probe_fails sample_uid (sample_options\<lparr> db_inMemoryOnly := m, db_filename := f \<rparr>)"
  by (simp add: probe_fails_def sample_options_def hook_or_identity_def)



lemma split_file_of_lines:
  "\<forall>l \<in> set ls. CHR 0x0A \<notin> set l \<Longrightarrow> split_newline (file_of_lines ls) = ls @ [[]]"
  by (induction ls) (simp_all add: file_of_lines_def split_newline_append)

lemma crashSafe_success:
  assumes "crashSafeWriteFileLines dirname io filename lines w = (Callback None, w')"
  shows "files w' filename = Some (file_of_lines lines)"
  using assms
  by (auto simp add: crashSafeWriteFileLines_def Let_def flush_task_def
      log_step_def writeFileLines_def storage_writeFile_def storage_rename_def
      split: prod.splits completion.splits option.splits if_splits write_outcome.splits)

lemma crashSafe_writes:
  assumes "crashSafeWriteFileLines dirname io filename lines w = (r, w')"
    and "(WriteLines p ls, out) \<in> set (trace w')"
  shows "(WriteLines p ls, out) \<in> set (trace w) \<or> p = filename @ ''~'' \<and> ls = lines"
  using assms
  by (auto simp add: crashSafeWriteFileLines_def Let_def flush_task_def
      log_step_def writeFileLines_def storage_writeFile_def storage_rename_def
      split: prod.splits completion.splits option.splits if_splits write_outcome.splits)

section \<open>Replay: the claims\<close>

text \<open>
  For every key but \<^verbatim>\<open>__proto__\<close>, the last line that touches the key decides: after a
  replay the key holds the document (or the index directive) of that line, and nothing when
  that line is a tombstone (or an index removal), whatever came before it.
\<close>

lemma replay_last_line_wins:
  assumes "k \<noteq> ''__proto__''"
  shows "(record_effect deserialize this l = Some (k, v)
          \<and> (\<forall>l' \<in> set post. \<forall>v'. record_effect deserialize this l' \<noteq> Some (k, v')) \<longrightarrow>
            map_of (own (dataById (treatRawData_loop deserialize this (pre @ l # post) st))) k = v)
       \<and> (index_effect deserialize this l = Some (k, v)
          \<and> (\<forall>l' \<in> set post. \<forall>v'. index_effect deserialize this l' \<noteq> Some (k, v')) \<longrightarrow>
            map_of (own (indexes (treatRawData_loop deserialize this (pre @ l # post) st))) k = v)"
  using assms
  by (simp add: loop_append loop_other_record loop_other_index round_effects apply_effect_same)

text \<open>
  C3: the replay of a record whose identifier is \<^verbatim>\<open>__proto__\<close>. The assignment
  \<^verbatim>\<open>dataById[doc._id] = doc\<close> runs the setter of \<^verbatim>\<open>Object.prototype.__proto__\<close> and stores
  nothing: of a log that is this one record line, no record is materialized. Of a log in
  which the same line comes last, after a record of the same identifier whose document
  has an own property \<^verbatim>\<open>__proto__\<close>, the record is materialized: what the replay gives for
  the key is not decided by the last line for the key.
\<close>

theorem treatRawData_proto_record_lost:
  "treatRawData parse_sample sample_persistence (join_newline [line_proto])
     = Inr \<lparr> data = [], treated_indexes = empty_dict \<rparr>
   \<and> treatRawData parse_sample sample_persistence (join_newline [line_proto_own, line_proto])
     = Inr \<lparr> data = [(''__proto__'', doc_proto)], treated_indexes = empty_dict \<rparr>"
  by code_simp





text \<open>
  C10, as the claim has it, fails on the line \<^verbatim>\<open>null\<close>: it deserializes without an error,
  to \<^verbatim>\<open>null\<close>, which carries no identifier and no directive, and the read of \<^verbatim>\<open>doc._id\<close>
  throws, so that the counter of corrupt lines goes up by one.
\<close>

theorem null_line_counted_corrupt:
  "parse_sample (beforeDeserialization sample_persistence line_null) = Some JNull
   \<and> corruptItems (treatRawData_round parse_sample sample_persistence line_null replay_start)
       = corruptItems replay_start + 1"
  by code_simp

text \<open>
  C10, amended: a line that deserializes to a value other than \<^verbatim>\<open>null\<close> and \<^verbatim>\<open>undefined\<close>
  and carries no truthy identifier, no index creation and no index removal leaves the
  dictionaries and the counter of corrupt lines as they are, in the loop of
  \<^verbatim>\<open>treatRawData\<close> and in the \<^verbatim>\<open>data\<close> handler of \<^verbatim>\<open>treatRawStream\<close> (which counts the line);
  and no line without a truthy identifier changes the records, whatever its \<^verbatim>\<open>$$deleted\<close>
  is.
\<close>

theorem line_without_effect_dropped:
  assumes "deserialize (beforeDeserialization this line) = Some doc"
    and "doc \<noteq> JNull" and "doc \<noteq> JUndefined"
    and "\<not> has_identifier doc"
  shows "(\<not> creates_index doc \<and> \<not> removes_index doc \<longrightarrow>
            treatRawData_round deserialize this line st = st
          \<and> on_data deserialize this line sst = sst\<lparr>s_length := s_length sst + 1\<rparr>)
       \<and> dataById (treatRawData_round deserialize this line st) = dataById st
       \<and> corruptItems (treatRawData_round deserialize this line st) = corruptItems st
       \<and> s_dataById (on_data deserialize this line sst) = s_dataById sst
       \<and> s_corruptItems (on_data deserialize this line sst) = s_corruptItems sst"
proof -
  note ne = no_effects [where deserialize = deserialize and this = this and line = line and doc = doc,
      OF assms]
  have d: "dataById (treatRawData_round deserialize this line s) = dataById s" for s
    by (simp add: round_effects ne(1) apply_effect_def)
  have c: "corruptItems (treatRawData_round deserialize this line s) = corruptItems s" for s
    by (simp add: round_corrupt ne(2))
  have r: "replay_of (on_data deserialize this line sst)
             = treatRawData_round deserialize this line (replay_of sst)"
    by (rule on_data_round)
  have sd: "s_dataById (on_data deserialize this line sst) = s_dataById sst"
    using d [of "replay_of sst"] arg_cong [OF r, of dataById] by (simp add: replay_of_def)
  have sc: "s_corruptItems (on_data deserialize this line sst) = s_corruptItems sst"
    using c [of "replay_of sst"] arg_cong [OF r, of corruptItems] by (simp add: replay_of_def)
  have full: "treatRawData_round deserialize this line s = s"
    if "\<not> creates_index doc \<and> \<not> removes_index doc" for s
  proof -
    have "indexes (treatRawData_round deserialize this line s) = indexes s"
      by (simp add: round_effects ne(3) [OF that] apply_effect_def)
    moreover have "replay.more (treatRawData_round deserialize this line s) = replay.more s"
      by simp
    ultimately show ?thesis
      using d [of s] c [of s] by (intro replay.equality) simp_all
  qed
  have sfull: "on_data deserialize this line sst = sst\<lparr>s_length := s_length sst + 1\<rparr>"
    if "\<not> creates_index doc \<and> \<not> removes_index doc"
    using r full [OF that, of "replay_of sst"]
    by (intro replay_of_eq) (simp_all add: on_data_length on_data_calls on_data_more replay_of_def)
  show ?thesis
    using d c sd sc full sfull by blast
qed

theorem line_without_effect_dropped_witness:
  "treatRawData_round parse_sample sample_persistence line_no_id replay_start = replay_start
   \<and> on_data parse_sample sample_persistence line_no_id stream_start
       = stream_start\<lparr>s_length := s_length stream_start + 1\<rparr>"
proof -
  have p: "parse_sample (beforeDeserialization sample_persistence line_no_id) = Some doc_no_id"
    by code_simp
  have n: "doc_no_id \<noteq> JNull" "doc_no_id \<noteq> JUndefined"
    by (simp_all add: doc_no_id_def)
  have i: "\<not> has_identifier doc_no_id" "\<not> creates_index doc_no_id" "\<not> removes_index doc_no_id"
    by (simp_all add: doc_no_id_def has_identifier_def creates_index_def removes_index_def)
  show ?thesis
    using i(2,3)
      line_without_effect_dropped [where deserialize = parse_sample and this = sample_persistence
        and line = line_no_id and doc = doc_no_id and st = replay_start and sst = stream_start,
        OF p n i(1)]
    by simp
qed

section \<open>The constructor and the compaction: the claims\<close>

text \<open>
  C6, amended: the constructor throws the reserved-suffix error when the store is not
  in-memory-only and the file name ends in \<^verbatim>\<open>~\<close>, and only then; it throws, in either mode,
  when exactly one hook is supplied and when the probe fails; an in-memory-only store
  whose hooks pass both checks is constructed whatever its file name is (the deprecated
  \<^verbatim>\<open>nodeWebkitAppName\<close> left aside).
\<close>

theorem Persistence_validation:
  "(\<not> db_inMemoryOnly opts \<and> ends_with_tilde (db_filename opts) \<longrightarrow>
      Persistence uid getNWAppFilename opts = Inl ReservedSuffix)
   \<and> (supplied (o_afterSerialization opts) \<noteq> supplied (o_beforeDeserialization opts) \<longrightarrow>
        isl (Persistence uid getNWAppFilename opts))
   \<and> (probe_fails uid opts \<longrightarrow> isl (Persistence uid getNWAppFilename opts))
   \<and> (Persistence uid getNWAppFilename opts = Inl ReservedSuffix \<longrightarrow>
        \<not> db_inMemoryOnly opts \<and> ends_with_tilde (db_filename opts))
   \<and> (db_inMemoryOnly opts
        \<and> supplied (o_afterSerialization opts) = supplied (o_beforeDeserialization opts)
        \<and> \<not> probe_fails uid opts
        \<and> \<not> truthy_string (o_nodeWebkitAppName opts) \<longrightarrow>
        Persistence uid getNWAppFilename opts = Inr (ctor_this opts))"
proof -
  let ?P = "Persistence uid getNWAppFilename opts"
  let ?A = "\<not> db_inMemoryOnly opts \<and> ends_with_tilde (db_filename opts)"
  let ?B = "supplied (o_afterSerialization opts) \<noteq> supplied (o_beforeDeserialization opts)"
  have 1: "?A \<longrightarrow> ?P = Inl ReservedSuffix"
    using ctor_suffix by blast
  have 2: "?B \<longrightarrow> isl ?P"
    using ctor_suffix [of opts uid getNWAppFilename] ctor_unpaired [of opts uid getNWAppFilename]
    by (cases ?A) auto
  have 3: "probe_fails uid opts \<longrightarrow> isl ?P"
    using 1 2 ctor_probe [of opts uid getNWAppFilename]
    by (cases ?A; cases ?B) auto
  have 4: "?P = Inl ReservedSuffix \<longrightarrow> ?A"
    by (auto simp add: Persistence_def Let_def split: if_splits option.splits)
  have 5: "db_inMemoryOnly opts
        \<and> supplied (o_afterSerialization opts) = supplied (o_beforeDeserialization opts)
        \<and> \<not> probe_fails uid opts
        \<and> \<not> truthy_string (o_nodeWebkitAppName opts) \<longrightarrow> ?P = Inr (ctor_this opts)"
    using ctor_success [of opts uid getNWAppFilename] by blast
  show ?thesis
    using 1 2 3 4 5 by blast
qed

text \<open>
  C6, as the claim has it, fails for an in-memory-only store: the check of the file name is
  guarded by \<^verbatim>\<open>!this.inMemoryOnly\<close>, and the constructor builds the object for a file name
  that ends in \<^verbatim>\<open>~\<close>.
\<close>

theorem in_memory_reserved_suffix_accepted:
  "ends_with_tilde (db_filename in_memory_tilde_options)
   \<and> Persistence sample_uid (\<lambda>appName f. None) in_memory_tilde_options
       = Inr \<lparr> inMemoryOnly = True, p_filename = Some ''menu.db~'', corruptAlertThreshold = 1 / 10,
               afterSerialization = (\<lambda>s. s), beforeDeserialization = (\<lambda>s. s) \<rparr>"
  using ctor_success [of in_memory_tilde_options sample_uid "\<lambda>appName f. None"]
    sample_probe [where m = True and f = "Some ''menu.db~''"]
  by (simp add: in_memory_tilde_options_def sample_options_def ends_with_tilde_def truthy_string_def
      supplied_def ctor_this_def hook_or_identity_def)

theorem Persistence_validation_witness:
  "Persistence sample_uid (\<lambda>appName f. None) (sample_options\<lparr> db_filename := Some ''menu.db~'' \<rparr>)
     = Inl ReservedSuffix
   \<and> isl (Persistence sample_uid (\<lambda>appName f. None)
        (sample_options\<lparr> o_afterSerialization := Some (\<lambda>s. s @ ''!'') \<rparr>))
   \<and> isl (Persistence sample_uid (\<lambda>appName f. None)
        (sample_options\<lparr> o_afterSerialization := Some (\<lambda>s. s @ ''!''),
                         o_beforeDeserialization := Some (\<lambda>s. s) \<rparr>))
   \<and> Persistence sample_uid (\<lambda>appName f. None) (sample_options\<lparr> db_inMemoryOnly := True \<rparr>)
     = Inr (ctor_this (sample_options\<lparr> db_inMemoryOnly := True \<rparr>))"
proof -
  let ?nw = "\<lambda>appName f. None :: string option"
  have p: "probe_fails sample_uid (sample_options\<lparr> o_afterSerialization := Some (\<lambda>s. s @ ''!''),
                         o_beforeDeserialization := Some (\<lambda>s. s) \<rparr>)"
    unfolding probe_fails_def
    by (rule bexI [of _ 1], rule bexI [of _ 0]) (simp_all add: hook_or_identity_def sample_uid_def)
  have q: "\<not> probe_fails sample_uid (sample_options\<lparr> db_inMemoryOnly := True \<rparr>)"
    by (simp add: probe_fails_def sample_options_def hook_or_identity_def)
  show ?thesis
    using p q
      Persistence_validation [of "sample_options\<lparr> db_filename := Some ''menu.db~'' \<rparr>" sample_uid ?nw]
      Persistence_validation [of "sample_options\<lparr> o_afterSerialization := Some (\<lambda>s. s @ ''!'') \<rparr>" sample_uid ?nw]
      Persistence_validation [of "sample_options\<lparr> o_afterSerialization := Some (\<lambda>s. s @ ''!''),
                         o_beforeDeserialization := Some (\<lambda>s. s) \<rparr>" sample_uid ?nw]
      Persistence_validation [of "sample_options\<lparr> db_inMemoryOnly := True \<rparr>" sample_uid ?nw]
    by (simp add: sample_options_def ends_with_tilde_def truthy_string_def supplied_def)
qed

text \<open>
  C5, amended: for a store that is not in-memory-only, a compaction hands to the atomic
  rewrite one line for every document of the store followed by one line for every index
  whose field is not \<^verbatim>\<open>_id\<close>, and nothing else: every write it makes writes these lines to
  the temporary file, and when the rewrite succeeds the datafile consists of these lines,
  each ended by a newline. It reports what the rewrite reports, and emits
  \<^verbatim>\<open>compaction.done\<close> exactly when the rewrite reports success. For an in-memory-only store
  it writes nothing, emits nothing and reports success.
\<close>

theorem persistCachedDatabase_compaction:
  "(inMemoryOnly this \<longrightarrow>
      persistCachedDatabase serialize dirname io this db w = (Callback None, [], w))
   \<and> (\<not> inMemoryOnly this \<and> p_filename this = Some filename
        \<and> crashSafeWriteFileLines dirname io filename (compaction_lines serialize this db) w = (r, w')
      \<longrightarrow> persistCachedDatabase serialize dirname io this db w
            = (r, if r = Callback None then [''compaction.done''] else [], w')
          \<and> (r = Callback None \<longrightarrow>
                files w' filename = Some (file_of_lines (compaction_lines serialize this db)))
          \<and> (\<forall>p ls out. (WriteLines p ls, out) \<in> set (trace w') \<longrightarrow>
                (WriteLines p ls, out) \<in> set (trace w)
                \<or> p = filename @ ''~'' \<and> ls = compaction_lines serialize this db))
   \<and> length (compaction_lines serialize this db)
       = length (getAllData db) + length (filter (\<lambda>entry. fst entry \<noteq> ''_id'') (db_indexes db))
   \<and> set (compaction_lines serialize this db)
       = (\<lambda>doc. afterSerialization this (serialize doc)) ` set (getAllData db)
         \<union> (\<lambda>entry. afterSerialization this (serialize (indexCreated_doc (fst entry) (snd entry))))
             ` {entry \<in> set (db_indexes db). fst entry \<noteq> ''_id''}
   \<and> ((\<forall>l \<in> set (compaction_lines serialize this db). CHR 0x0A \<notin> set l) \<longrightarrow>
        split_newline (file_of_lines (compaction_lines serialize this db))
          = compaction_lines serialize this db @ [[]])"
proof -
  let ?lines = "compaction_lines serialize this db"
  have a: "inMemoryOnly this \<longrightarrow>
      persistCachedDatabase serialize dirname io this db w = (Callback None, [], w)"
    by (simp add: persistCachedDatabase_def)
  have b: "persistCachedDatabase serialize dirname io this db w
            = (r, if r = Callback None then [''compaction.done''] else [], w')"
    if "\<not> inMemoryOnly this" "p_filename this = Some filename"
      "crashSafeWriteFileLines dirname io filename ?lines w = (r, w')"
    using that by (simp add: persistCachedDatabase_def Let_def split: completion.splits option.splits)
  have c: "length ?lines
       = length (getAllData db) + length (filter (\<lambda>entry. fst entry \<noteq> ''_id'') (db_indexes db))"
    by (simp add: compaction_lines_def)
  have d: "set ?lines
       = (\<lambda>doc. afterSerialization this (serialize doc)) ` set (getAllData db)
         \<union> (\<lambda>entry. afterSerialization this (serialize (indexCreated_doc (fst entry) (snd entry))))
             ` {entry \<in> set (db_indexes db). fst entry \<noteq> ''_id''}"
    by (simp add: compaction_lines_def)
  show ?thesis
    using a b c d split_file_of_lines [of ?lines]
      crashSafe_success [of dirname io filename ?lines w w']
      crashSafe_writes [of dirname io filename ?lines w r w']
    by blast
qed

text \<open>
  C5, as the claim has it, fails for an in-memory-only store: \<^verbatim>\<open>persistCachedDatabase\<close>
  returns at its first statement, and with one document in the store no line is written.
\<close>

theorem in_memory_compaction_writes_nothing:
  "inMemoryOnly in_memory_persistence
   \<and> length (getAllData sample_db) = 1
   \<and> persistCachedDatabase sample_serialize (\<lambda>_. ''/data'') ok_io in_memory_persistence sample_db
        old_world = (Callback None, [], old_world)"
  by (simp add: in_memory_persistence_def sample_db_def persistCachedDatabase_def)

theorem persistCachedDatabase_compaction_witness:
  "fst (persistCachedDatabase sample_serialize (\<lambda>_. ''/data'') ok_io sample_persistence sample_db old_world)
     = Callback None
   \<and> fst (snd (persistCachedDatabase sample_serialize (\<lambda>_. ''/data'') ok_io sample_persistence
        sample_db old_world)) = [''compaction.done'']
   \<and> files (snd (snd (persistCachedDatabase sample_serialize (\<lambda>_. ''/data'') ok_io sample_persistence
        sample_db old_world))) ''/data/menu.db''
     = Some (line_a @ [CHR 0x0A] @ line_index_n_full @ [CHR 0x0A])
   \<and> compaction_lines sample_serialize sample_persistence sample_db = [line_a, line_index_n_full]
   \<and> split_newline (file_of_lines (compaction_lines sample_serialize sample_persistence sample_db))
     = [line_a, line_index_n_full, []]
   \<and> persistCachedDatabase sample_serialize (\<lambda>_. ''/data'') ok_io in_memory_persistence sample_db
        old_world = (Callback None, [], old_world)"
proof -
  have n: "\<forall>l \<in> set [line_a, line_index_n_full]. CHR 0x0A \<notin> set l"
    by (simp add: line_a_def line_index_n_full_def)
  have i: "inMemoryOnly in_memory_persistence"
    by (simp add: in_memory_persistence_def)
  let ?run = "crashSafeWriteFileLines (\<lambda>_. ''/data'') ok_io ''/data/menu.db''
     (compaction_lines sample_serialize sample_persistence sample_db) old_world"
  have l: "compaction_lines sample_serialize sample_persistence sample_db = [line_a, line_index_n_full]"
    by (simp add: compaction_lines_def sample_db_def sample_serialize_def sample_persistence_def
        doc_a_def indexCreated_doc_def)
  have m: "\<not> inMemoryOnly sample_persistence" "p_filename sample_persistence = Some ''/data/menu.db''"
    by (simp_all add: sample_persistence_def)
  have r: "fst ?run = Callback None"
    unfolding l
    by (simp add: crashSafeWriteFileLines_def ok_io_def old_world_def all_ok_def
      fixed_calls_def Let_def flush_task_def log_step_def writeFileLines_def
      storage_writeFile_def storage_rename_def flushToStorage_def is_error_def
      storage_exists_def opt_filename_def opt_flags_def opt_isDir_def)
  have rr: "?run = (Callback None, snd ?run)"
    using r by (simp add: prod_eq_iff)
  show ?thesis
    using l m rr n i
      persistCachedDatabase_compaction [where this = in_memory_persistence
        and serialize = sample_serialize and dirname = "\<lambda>_. ''/data''" and io = ok_io
        and db = sample_db and w = old_world]
      persistCachedDatabase_compaction [where this = sample_persistence and serialize = sample_serialize
        and dirname = "\<lambda>_. ''/data''" and io = ok_io and db = sample_db and w = old_world
        and filename = "''/data/menu.db''" and r = "Callback None" and w' = "snd ?run"]
    by (simp add: file_of_lines_def)
qed

end
